theory Spec2Isabelle
  imports Main
begin

section \<open>The pandoc wrapper script \<^verbatim>\<open>scripts/pandoc-html.py\<close>\<close>

text \<open>
  The script is straight-line Python: it reads \<^verbatim>\<open>sys.argv[1]\<close>, two environment
  variables, builds two paths and a command, runs the command as a child process, waits
  for it and prints two lines when the exit status is not zero.

  Python \<^verbatim>\<open>str\<close> values that hold paths are modelled as \<^typ>\<open>string\<close>, one
  \<^typ>\<open>char\<close> for each byte of the file-system encoding: the separator \<^verbatim>\<open>/\<close> is a
  single byte that is part of no other character, so the functions of \<^verbatim>\<open>posixpath\<close>
  cut and join at the same places. Python \<^verbatim>\<open>bytes\<close> are byte lists as well.
\<close>

subsection \<open>Errors the script can raise\<close>

datatype py_error = IndexError | KeyError string | OSError

text \<open>\<^verbatim>\<open>IndexError\<close> and \<^verbatim>\<open>KeyError\<close> are the two subclasses of
  Python's \<^verbatim>\<open>LookupError\<close>.\<close>

fun is_lookup_error :: "py_error \<Rightarrow> bool" where
  "is_lookup_error IndexError = True"
| "is_lookup_error (KeyError k) = True"
| "is_lookup_error OSError = False"

subsection \<open>Library functions the script calls\<close>

text \<open>\<^verbatim>\<open>sys.argv[i]\<close> for a non-negative index: out of range raises.\<close>

definition argv_index :: "string list \<Rightarrow> nat \<Rightarrow> py_error + string" where
  "argv_index argv i = (if i < length argv then Inr (argv ! i) else Inl IndexError)"

text \<open>\<^verbatim>\<open>os.environ[k]\<close>: a missing key raises \<^verbatim>\<open>KeyError(k)\<close>.\<close>

definition environ_getitem :: "(string \<rightharpoonup> string) \<Rightarrow> string \<Rightarrow> py_error + string" where
  "environ_getitem environ k = (case environ k of None \<Rightarrow> Inl (KeyError k) | Some v \<Rightarrow> Inr v)"

text \<open>The path separator of \<^verbatim>\<open>posixpath\<close>.\<close>

definition sep :: string where
  "sep = ''/''"

text \<open>\<^verbatim>\<open>s.rfind(c)\<close> for a one-character \<^verbatim>\<open>c\<close>: the highest index holding
  \<^verbatim>\<open>c\<close>, or \<^verbatim>\<open>-1\<close>.\<close>

fun rfind :: "string \<Rightarrow> char \<Rightarrow> int" where
  "rfind [] c = - 1"
| "rfind (x # xs) c =
     (let r = rfind xs c in if 0 \<le> r then r + 1 else if x = c then 0 else - 1)"

definition startswith :: "string \<Rightarrow> string \<Rightarrow> bool" where
  "startswith s pre = (take (length pre) s = pre)"

definition endswith :: "string \<Rightarrow> string \<Rightarrow> bool" where
  "endswith s suf = (length suf \<le> length s \<and> drop (length s - length suf) s = suf)"

text \<open>
  \<^verbatim>\<open>posixpath.basename\<close>:
  \<^verbatim>\<open>i = p.rfind(sep) + 1; return p[i:]\<close>
\<close>

definition basename :: "string \<Rightarrow> string" where
  "basename p = (let i = rfind p (hd sep) + 1 in drop (nat i) p)"

text \<open>
  \<^verbatim>\<open>posixpath.join(a, *p)\<close>:
  \<^verbatim>\<open>
  path = a
  for b in p:
      if b.startswith(sep):
          path = b
      elif not path or path.endswith(sep):
          path += b
      else:
          path += sep + b
  return path
  \<close>
\<close>

fun join_loop :: "string \<Rightarrow> string list \<Rightarrow> string" where
  "join_loop path [] = path"
| "join_loop path (b # p) =
     join_loop
       (if startswith b sep then b
        else if path = [] \<or> endswith path sep then path @ b
        else path @ sep @ b) p"

definition path_join :: "string \<Rightarrow> string list \<Rightarrow> string" where
  "path_join a p = join_loop a p"

text \<open>\<^verbatim>\<open>str(n)\<close> for an integer, as the f-string \<^verbatim>\<open>{ret}\<close> formats it:
  decimal digits, a minus sign in front of a negative number.\<close>

definition digit_chars :: string where
  "digit_chars = ''0123456789abcdef''"

fun digits :: "nat \<Rightarrow> string" where
  "digits n =
     (if n < 10 then [digit_chars ! n]
      else digits (n div 10) @ [digit_chars ! (n mod 10)])"

declare digits.simps [simp del]

definition str_int :: "int \<Rightarrow> string" where
  "str_int i = (if i < 0 then ''-'' @ digits (nat (- i)) else digits (nat i))"

text \<open>
  \<^verbatim>\<open>repr(bs)\<close> for a \<^verbatim>\<open>bytes\<close> object, which is what the f-string
  \<^verbatim>\<open>{output}\<close> formats: the prefix \<^verbatim>\<open>b\<close>, a quote (double only when the bytes
  hold a single quote and no double quote), every byte printed or escaped, the quote.
\<close>

definition squote :: char where
  "squote = CHR 0x27"

definition dquote :: char where
  "dquote = CHR 0x22"

definition backslash :: char where
  "backslash = CHR 0x5C"

definition repr_quote :: "char list \<Rightarrow> char" where
  "repr_quote bs = (if squote \<in> set bs \<and> dquote \<notin> set bs then dquote else squote)"

definition repr_byte :: "char \<Rightarrow> char \<Rightarrow> string" where
  "repr_byte quote c =
     (if c = quote \<or> c = backslash then [backslash, c]
      else if c = CHR 0x09 then [backslash, CHR ''t'']
      else if c = CHR 0x0A then [backslash, CHR ''n'']
      else if c = CHR 0x0D then [backslash, CHR ''r'']
      else if (of_char c :: nat) < 32 \<or> 127 \<le> (of_char c :: nat) then
        [backslash, CHR ''x'', digit_chars ! (of_char c div 16), digit_chars ! (of_char c mod 16)]
      else [c])"

definition bytes_repr :: "char list \<Rightarrow> string" where
  "bytes_repr bs =
     (let quote = repr_quote bs
      in [CHR ''b'', quote] @ concat (map (repr_byte quote) bs) @ [quote])"

subsection \<open>The world outside the script\<close>

text \<open>
  The file system maps a path to the content of the file there. The converter is the
  external program: given the command and the file system it finds, it either cannot be
  started, or never exits (it hangs, or it blocks on a full pipe that the script does not
  read while it waits), or exits with a status and the bytes it wrote to its two
  pipes; it leaves a file system behind.
\<close>

type_synonym fs = "string \<rightharpoonup> char list"

datatype child = SpawnFails | NeverExits | Exits int "char list" "char list"

type_synonym converter = "string list \<Rightarrow> fs \<Rightarrow> child \<times> fs"

text \<open>What a run can change: the files, the text on the script's standard output, and
  the commands handed to \<^verbatim>\<open>subprocess.Popen\<close>.\<close>

record world =
  files :: fs
  stdout :: string
  popen_calls :: "string list list"

text \<open>How a run ends: the script ran to its last line, an exception was not caught,
  or the script waits for ever.\<close>

datatype outcome = Completed | Raised py_error | Blocked

text \<open>The exit status the Python runtime gives the process: 0 after the last line,
  1 after an uncaught exception.\<close>

fun exit_status :: "outcome \<Rightarrow> int option" where
  "exit_status Completed = Some 0"
| "exit_status (Raised e) = Some 1"
| "exit_status Blocked = None"

text \<open>\<^verbatim>\<open>print(s)\<close> writes \<^verbatim>\<open>s\<close> and a newline to standard output.\<close>

definition py_print :: "string \<Rightarrow> world \<Rightarrow> world" where
  "py_print s w = w\<lparr>stdout := stdout w @ s @ [CHR 0x0A]\<rparr>"

subsection \<open>The script\<close>

text \<open>The variables the script has bound when it reaches \<^verbatim>\<open>subprocess.Popen\<close>.\<close>

record locals =
  fname :: string
  meson_source_root :: string
  meson_build_root :: string
  infile :: string
  outfile :: string
  cmd :: "string list"

text \<open>
  Lines 13 to 24:
  \<^verbatim>\<open>
  fname = os.path.basename(sys.argv[1])
  meson_source_root = os.environ['MESON_SOURCE_ROOT']
  meson_build_root = os.environ['MESON_BUILD_ROOT']
  infile = os.path.join(meson_source_root, fname + '.md')
  outfile = os.path.join(meson_build_root, fname + '.html')
  cmd = ['/usr/bin/pandoc', '-f' , 'markdown' , '-s', infile, '-o', outfile]
  \<close>
\<close>

definition prepare :: "string list \<Rightarrow> (string \<rightharpoonup> string) \<Rightarrow> py_error + locals" where
  "prepare argv environ =
     (case argv_index argv 1 of
        Inl e \<Rightarrow> Inl e
      | Inr arg \<Rightarrow>
          (let fname' = basename arg in
           case environ_getitem environ ''MESON_SOURCE_ROOT'' of
             Inl e \<Rightarrow> Inl e
           | Inr source_root \<Rightarrow>
               (case environ_getitem environ ''MESON_BUILD_ROOT'' of
                  Inl e \<Rightarrow> Inl e
                | Inr build_root \<Rightarrow>
                    (let infile' = path_join source_root [fname' @ ''.md''];
                         outfile' = path_join build_root [fname' @ ''.html'']
                     in Inr \<lparr>fname = fname',
                              meson_source_root = source_root,
                              meson_build_root = build_root,
                              infile = infile',
                              outfile = outfile',
                              cmd = [''/usr/bin/pandoc'', ''-f'', ''markdown'', ''-s'',
                                     infile', ''-o'', outfile']\<rparr>))))"

text \<open>
  Lines 30 to 41:
  \<^verbatim>\<open>
  proc = subprocess.Popen(cmd, stdout=subprocess.PIPE, stderr=subprocess.PIPE)
  ret=proc.wait()
  output, errors = proc.communicate()
  if ret:
      print(f'FAILED ret={ret}')
      print(f'output={output} errors={errors}')
  \<close>
  \<^verbatim>\<open>Popen\<close> raises \<^verbatim>\<open>OSError\<close> when the executable cannot be started;
  \<^verbatim>\<open>wait\<close> returns only when the child has exited.
\<close>

definition launch :: "converter \<Rightarrow> locals \<Rightarrow> world \<Rightarrow> outcome \<times> world" where
  "launch conv l w =
     (let w1 = w\<lparr>popen_calls := popen_calls w @ [cmd l]\<rparr>
      in case conv (cmd l) (files w) of
           (SpawnFails, fs') \<Rightarrow> (Raised OSError, w1)
         | (NeverExits, fs') \<Rightarrow> (Blocked, w1\<lparr>files := fs'\<rparr>)
         | (Exits ret output errors, fs') \<Rightarrow>
             (let w2 = w1\<lparr>files := fs'\<rparr>
              in if ret \<noteq> 0
                 then (Completed,
                       py_print (''output='' @ bytes_repr output @ '' errors='' @ bytes_repr errors)
                         (py_print (''FAILED ret='' @ str_int ret) w2))
                 else (Completed, w2)))"

text \<open>The whole script.\<close>

definition main :: "string list \<Rightarrow> (string \<rightharpoonup> string) \<Rightarrow> converter \<Rightarrow> world \<Rightarrow> outcome \<times> world" where
  "main argv environ conv w =
     (case prepare argv environ of
        Inl e \<Rightarrow> (Raised e, w)
      | Inr l \<Rightarrow> launch conv l w)"

subsection \<open>A concrete invocation\<close>

text \<open>The invocation of the script's own header comment, and an empty world.\<close>

abbreviation ex_argv :: "string list" where
  "ex_argv \<equiv> [''pandoc-html.py'', ''README'']"

abbreviation ex_environ :: "string \<rightharpoonup> string" where
  "ex_environ \<equiv> [''MESON_SOURCE_ROOT'' \<mapsto> ''/home/work'',
                  ''MESON_BUILD_ROOT'' \<mapsto> ''/home/work/meson_bld'']"

abbreviation ex_locals :: locals where
  "ex_locals \<equiv> \<lparr>fname = ''README'', meson_source_root = ''/home/work'',
          meson_build_root = ''/home/work/meson_bld'',
          infile = ''/home/work/README.md'',
          outfile = ''/home/work/meson_bld/README.html'',
          cmd = [''/usr/bin/pandoc'', ''-f'', ''markdown'', ''-s'', ''/home/work/README.md'',
                 ''-o'', ''/home/work/meson_bld/README.html'']\<rparr>"

abbreviation ex_world :: world where
  "ex_world \<equiv> \<lparr>files = Map.empty, stdout = [], popen_calls = []\<rparr>"

text \<open>A converter stub that always exits with status 2 and writes \<^verbatim>\<open>boom\<close> to its
  error stream.\<close>

abbreviation failing_stub :: converter where
  "failing_stub \<equiv> (\<lambda>c f. (Exits 2 [] ''boom'', f))"

text \<open>A converter stub that reads the input file and writes the output file, failing
  without writing when the input is missing; and a world that holds the input file.\<close>

abbreviation html_stub :: converter where
  "html_stub \<equiv> (\<lambda>c f. case f (c ! 4) of
       None \<Rightarrow> (Exits 1 [] ''missing input'', f)
     | Some m \<Rightarrow> (Exits 0 [] [], f(c ! 6 \<mapsto> ''<html>'' @ m)))"

abbreviation ex_world_with_input :: world where
  "ex_world_with_input \<equiv>
     \<lparr>files = [''/home/work/README.md'' \<mapsto> ''# title''], stdout = [], popen_calls = []\<rparr>"

text \<open>A world that already holds printed text and a file.\<close>

abbreviation ex_world_printed :: world where
  "ex_world_printed \<equiv> \<lparr>files = [''/home/work/README.md'' \<mapsto> ''# title''],
     stdout = ''earlier output'', popen_calls = []\<rparr>"

section \<open>Facts about the library functions and the two halves of the script\<close>

lemma rfind_neg: "rfind xs c < 0 \<longleftrightarrow> c \<notin> set xs"
  by (induction xs) (auto simp: Let_def)

lemma drop_rfind: "c \<notin> set (drop (nat (rfind xs c + 1)) xs)"
proof (induction xs)
  case Nil
  show ?case by simp
next
  case (Cons x xs)
  show ?case
  proof (cases "0 \<le> rfind xs c")
    case True
    then have "nat (rfind xs c + 1 + 1) = Suc (nat (rfind xs c + 1))" by simp
    with True Cons show ?thesis by (simp add: Let_def)
  next
    case False
    then have "c \<notin> set xs" using rfind_neg [of xs c] by simp
    with False show ?thesis by (auto simp: Let_def)
  qed
qed

lemma take_rfind:
  "take (nat (rfind xs c + 1)) xs = [] \<or> last (take (nat (rfind xs c + 1)) xs) = c"
proof (induction xs)
  case Nil
  show ?case by simp
next
  case (Cons x xs)
  show ?case
  proof (cases "0 \<le> rfind xs c")
    case True
    then have n: "nat (rfind xs c + 1 + 1) = Suc (nat (rfind xs c + 1))" by simp
    from True have "take (nat (rfind xs c + 1)) xs \<noteq> []"
      using rfind_neg [of xs c] by (cases xs) auto
    with True Cons n show ?thesis by (simp add: Let_def)
  next
    case False
    then show ?thesis by (auto simp: Let_def)
  qed
qed

lemma basename_no_sep: "CHR ''/'' \<notin> set (basename p)"
  using drop_rfind [of "CHR ''/''" p] by (simp add: basename_def sep_def)

lemma basename_split:
  "\<exists>d. p = d @ basename p \<and> (d = [] \<or> last d = CHR ''/'')"
proof -
  let ?n = "nat (rfind p (CHR ''/'') + 1)"
  have "p = take ?n p @ basename p" by (simp add: basename_def sep_def)
  moreover have "take ?n p = [] \<or> last (take ?n p) = CHR ''/''" by (rule take_rfind)
  ultimately show ?thesis by blast
qed


lemma startswith_sep: "startswith s sep \<longleftrightarrow> s \<noteq> [] \<and> hd s = CHR ''/''"
  by (cases s) (auto simp: startswith_def sep_def)

lemma endswith_sep: "endswith s sep \<longleftrightarrow> s \<noteq> [] \<and> last s = CHR ''/''"
proof (cases s rule: rev_cases)
  case Nil
  then show ?thesis by (simp add: endswith_def sep_def)
next
  case (snoc ys y)
  then show ?thesis by (auto simp: endswith_def sep_def)
qed

lemma path_join_relative:
  assumes "b = [] \<or> hd b \<noteq> CHR ''/''"
  shows "path_join a [b] = a @ (if a = [] \<or> last a = CHR ''/'' then [] else ''/'') @ b"
  using assms by (simp add: path_join_def startswith_sep endswith_sep) (simp add: sep_def)

lemma suffixed_relative:
  assumes "CHR ''/'' \<notin> set f" and "suf \<noteq> []" and "hd suf \<noteq> CHR ''/''"
  shows "f @ suf = [] \<or> hd (f @ suf) \<noteq> CHR ''/''"
  using assms by (cases f) auto

lemma path_join_basename_md:
  "path_join a [basename p @ ''.md''] =
     a @ (if a = [] \<or> last a = CHR ''/'' then [] else ''/'') @ basename p @ ''.md''"
  by (rule path_join_relative, rule suffixed_relative) (simp_all add: basename_no_sep)

lemma path_join_basename_html:
  "path_join a [basename p @ ''.html''] =
     a @ (if a = [] \<or> last a = CHR ''/'' then [] else ''/'') @ basename p @ ''.html''"
  by (rule path_join_relative, rule suffixed_relative) (simp_all add: basename_no_sep)

lemma prepare_ok:
  assumes "1 < length argv"
    and "environ ''MESON_SOURCE_ROOT'' = Some S"
    and "environ ''MESON_BUILD_ROOT'' = Some D"
  shows "prepare argv environ =
     Inr \<lparr>fname = basename (argv ! 1), meson_source_root = S, meson_build_root = D,
          infile = path_join S [basename (argv ! 1) @ ''.md''],
          outfile = path_join D [basename (argv ! 1) @ ''.html''],
          cmd = [''/usr/bin/pandoc'', ''-f'', ''markdown'', ''-s'',
                 path_join S [basename (argv ! 1) @ ''.md''], ''-o'',
                 path_join D [basename (argv ! 1) @ ''.html'']]\<rparr>"
  using assms by (simp add: prepare_def argv_index_def environ_getitem_def Let_def)

lemma prepare_Inr_iff:
  "(\<exists>l. prepare argv environ = Inr l) \<longleftrightarrow>
     1 < length argv \<and> environ ''MESON_SOURCE_ROOT'' \<noteq> None \<and> environ ''MESON_BUILD_ROOT'' \<noteq> None"
  by (auto simp: prepare_def argv_index_def environ_getitem_def Let_def split: option.splits)

lemma prepare_InrD:
  assumes "prepare argv environ = Inr l"
  shows "1 < length argv"
    and "environ ''MESON_SOURCE_ROOT'' = Some (meson_source_root l)"
    and "environ ''MESON_BUILD_ROOT'' = Some (meson_build_root l)"
    and "fname l = basename (argv ! 1)"
    and "infile l = path_join (meson_source_root l) [fname l @ ''.md'']"
    and "outfile l = path_join (meson_build_root l) [fname l @ ''.html'']"
    and "cmd l = [''/usr/bin/pandoc'', ''-f'', ''markdown'', ''-s'', infile l, ''-o'', outfile l]"
  using assms
  by (auto simp: prepare_def argv_index_def environ_getitem_def Let_def
           split: option.splits if_splits)

lemma launch_outcome:
  "fst (launch conv l w) =
     (case fst (conv (cmd l) (files w)) of
        SpawnFails \<Rightarrow> Raised OSError | NeverExits \<Rightarrow> Blocked | Exits ret out err \<Rightarrow> Completed)"
  by (simp add: launch_def Let_def split: prod.splits child.splits)

lemma launch_stdout:
  "stdout (snd (launch conv l w)) = stdout w @
     (case fst (conv (cmd l) (files w)) of
        Exits ret out err \<Rightarrow>
          if ret \<noteq> 0
          then ''FAILED ret='' @ str_int ret @ [CHR 0x0A] @
               ''output='' @ bytes_repr out @ '' errors='' @ bytes_repr err @ [CHR 0x0A]
          else []
      | _ \<Rightarrow> [])"
  by (simp add: launch_def Let_def py_print_def split: prod.splits child.splits)

lemma launch_files:
  "files (snd (launch conv l w)) =
     (case fst (conv (cmd l) (files w)) of
        SpawnFails \<Rightarrow> files w | _ \<Rightarrow> snd (conv (cmd l) (files w)))"
  by (simp add: launch_def Let_def py_print_def split: prod.splits child.splits)

lemma launch_popen_calls:
  "popen_calls (snd (launch conv l w)) = popen_calls w @ [cmd l]"
  by (simp add: launch_def Let_def py_print_def split: prod.splits child.splits)

lemma basename_README: "basename ''README'' = ''README''"
  by (simp add: basename_def sep_def)

lemma main_Inl: "prepare argv environ = Inl e \<Longrightarrow> main argv environ conv w = (Raised e, w)"
  by (simp add: main_def)

lemma main_Inr: "prepare argv environ = Inr l \<Longrightarrow> main argv environ conv w = launch conv l w"
  by (simp add: main_def)

lemma launch_prints_iff:
  "(stdout (snd (launch conv l w)) \<noteq> stdout w) =
     (\<exists>ret output errors fs'. conv (cmd l) (files w) = (Exits ret output errors, fs') \<and> ret \<noteq> 0)"
proof (cases "conv (cmd l) (files w)")
  case (Pair ch fs'')
  then show ?thesis by (cases ch) (simp_all add: launch_stdout)
qed

lemma launch_prints:
  assumes "conv (cmd l) (files w) = (Exits ret output errors, fs')"
  shows "stdout (snd (launch conv l w)) = stdout w @
        (if ret = 0 then []
         else ''FAILED ret='' @ str_int ret @ [CHR 0x0A] @
              ''output='' @ bytes_repr output @ '' errors='' @ bytes_repr errors @ [CHR 0x0A])"
  using assms by (simp add: launch_stdout)

lemma prepare_example: "prepare ex_argv ex_environ = Inr ex_locals"
  by (simp add: prepare_def argv_index_def environ_getitem_def basename_README path_join_def
      startswith_def endswith_def sep_def Let_def)

lemma str_int_2: "str_int 2 = ''2''"
  by (simp add: str_int_def digits.simps digit_chars_def)

lemma bytes_repr_empty: "bytes_repr [] = [CHR ''b'', CHR 0x27, CHR 0x27]"
  by (simp add: bytes_repr_def repr_quote_def Let_def squote_def)

lemma bytes_repr_boom: "bytes_repr ''boom'' = [CHR ''b'', CHR 0x27] @ ''boom'' @ [CHR 0x27]"
  by (simp add: bytes_repr_def repr_quote_def repr_byte_def Let_def squote_def dquote_def
      backslash_def)

lemma prepare_missing_variable:
  assumes "environ ''MESON_SOURCE_ROOT'' = None \<or> environ ''MESON_BUILD_ROOT'' = None"
  shows "prepare argv environ =
     Inl (if length argv \<le> 1 then IndexError
          else if environ ''MESON_SOURCE_ROOT'' = None then KeyError ''MESON_SOURCE_ROOT''
          else KeyError ''MESON_BUILD_ROOT'')"
  using assms
  by (auto simp: prepare_def argv_index_def environ_getitem_def Let_def split: option.splits)

lemma prepare_dir_example:
  "prepare [''pandoc-html.py'', ''dir/README''] ex_environ = Inr ex_locals"
  by (simp add: prepare_def argv_index_def environ_getitem_def basename_def path_join_def
      startswith_def endswith_def sep_def Let_def)

lemma basename_empty: "basename [] = []"
  by (simp add: basename_def)

lemma argv_index_second: "argv_index (p # a # xs) 1 = Inr a"
  by (simp add: argv_index_def)

lemma environ_getitem_restrict:
  "environ_getitem (environ |` {''MESON_SOURCE_ROOT'', ''MESON_BUILD_ROOT''}) ''MESON_SOURCE_ROOT''
     = environ_getitem environ ''MESON_SOURCE_ROOT''"
  "environ_getitem (environ |` {''MESON_SOURCE_ROOT'', ''MESON_BUILD_ROOT''}) ''MESON_BUILD_ROOT''
     = environ_getitem environ ''MESON_BUILD_ROOT''"
  by (simp_all add: environ_getitem_def)

lemma infile_neq_outfile:
  assumes "prepare argv environ = Inr l"
  shows "infile l \<noteq> outfile l"
proof -
  have "last (infile l) = CHR ''d''"
    unfolding prepare_InrD(5) [OF assms] prepare_InrD(4) [OF assms] path_join_basename_md
    by simp
  moreover have "last (outfile l) = CHR ''l''"
    unfolding prepare_InrD(6) [OF assms] prepare_InrD(4) [OF assms] path_join_basename_html
    by simp
  ultimately show ?thesis by auto
qed

lemma launch_twice:
  assumes same: "\<And>f g. f inp = g inp \<Longrightarrow> fst (conv (cmd l) f) = fst (conv (cmd l) g)"
    and writes: "\<And>f g. f inp = g inp \<Longrightarrow>
        snd (conv (cmd l) f) out = snd (conv (cmd l) g) out \<or>
        snd (conv (cmd l) f) out = f out \<and> snd (conv (cmd l) g) out = g out"
    and keeps: "\<And>f. snd (conv (cmd l) f) inp = f inp"
  shows "fst (launch conv l (snd (launch conv l w))) = fst (launch conv l w) \<and>
         files (snd (launch conv l (snd (launch conv l w)))) out = files (snd (launch conv l w)) out \<and>
         (\<exists>p. stdout (snd (launch conv l w)) = stdout w @ p \<and>
              stdout (snd (launch conv l (snd (launch conv l w)))) = stdout (snd (launch conv l w)) @ p)"
proof -
  define ch where "ch = fst (conv (cmd l) (files w))"
  define w1 where "w1 = snd (launch conv l w)"
  define w2 where "w2 = snd (launch conv l w1)"
  have f1: "files w1 = (case ch of SpawnFails \<Rightarrow> files w | _ \<Rightarrow> snd (conv (cmd l) (files w)))"
    unfolding w1_def ch_def by (rule launch_files)
  have inp: "files w1 inp = files w inp"
    unfolding f1 by (cases ch) (simp_all add: keeps)
  have child: "fst (conv (cmd l) (files w1)) = ch"
    using same [of "files w1" "files w", OF inp] by (simp add: ch_def)
  have outp: "snd (conv (cmd l) (files w1)) out = snd (conv (cmd l) (files w)) out \<or>
      snd (conv (cmd l) (files w1)) out = files w1 out"
    using writes [of "files w1" "files w", OF inp] by blast
  have r: "fst (launch conv l w1) = fst (launch conv l w)"
    unfolding launch_outcome child ch_def ..
  have f2: "files w2 = (case ch of SpawnFails \<Rightarrow> files w1 | _ \<Rightarrow> snd (conv (cmd l) (files w1)))"
    unfolding w2_def launch_files child ..
  have f: "files w2 out = files w1 out"
  proof (cases "ch = SpawnFails")
    case True
    then show ?thesis unfolding f2 by simp
  next
    case False
    then have "files w2 = snd (conv (cmd l) (files w1))"
      unfolding f2 by (cases ch) simp_all
    then have a: "files w2 out = snd (conv (cmd l) (files w1)) out" by (rule arg_cong)
    from False have b: "snd (conv (cmd l) (files w)) = files w1"
      unfolding f1 by (cases ch) simp_all
    from outp show ?thesis
    proof
      assume "snd (conv (cmd l) (files w1)) out = snd (conv (cmd l) (files w)) out"
      with a show ?thesis unfolding b by simp
    next
      assume "snd (conv (cmd l) (files w1)) out = files w1 out"
      with a show ?thesis by simp
    qed
  qed
  define p where "p = (case ch of
        Exits ret output errors \<Rightarrow>
          if ret \<noteq> 0
          then ''FAILED ret='' @ str_int ret @ [CHR 0x0A] @
               ''output='' @ bytes_repr output @ '' errors='' @ bytes_repr errors @ [CHR 0x0A]
          else []
      | _ \<Rightarrow> [])"
  have s1: "stdout w1 = stdout w @ p"
    unfolding w1_def p_def ch_def by (rule launch_stdout)
  have s2: "stdout w2 = stdout w1 @ p"
    unfolding w2_def p_def launch_stdout child ..
  from s1 s2 have "\<exists>p. stdout w1 = stdout w @ p \<and> stdout w2 = stdout w1 @ p" by blast
  with r f show ?thesis unfolding w2_def w1_def by (intro conjI)
qed

lemma html_stub_writes:
  "files (snd (main ex_argv ex_environ html_stub ex_world_with_input)) (outfile ex_locals)
   = Some ''<html># title''"
  by (simp add: main_Inr [OF prepare_example] launch_def)

lemma launch_same_child:
  assumes "fst (conv (cmd l) (files w)) = fst (conv' (cmd l) (files w'))"
  shows "fst (launch conv l w) = fst (launch conv' l w') \<and>
         (\<exists>t. stdout (snd (launch conv l w)) = stdout w @ t \<and>
              stdout (snd (launch conv' l w')) = stdout w' @ t)"
  unfolding launch_outcome launch_stdout assms by simp

lemma prepare_verbose_example:
  "prepare [''pandoc-html.py'', ''README'', ''--verbose''] ex_environ = Inr ex_locals"
  by (simp add: prepare_def argv_index_def environ_getitem_def basename_README path_join_def
      startswith_def endswith_def sep_def Let_def)

section \<open>Properties\<close>

text \<open>
  C1: for every argument and every source root \<open>S\<close> and build root \<open>D\<close>, the script
  binds \<^verbatim>\<open>infile\<close> to \<^verbatim>\<open>os.path.join(S, B + '.md')\<close> and \<^verbatim>\<open>outfile\<close> to
  \<^verbatim>\<open>os.path.join(D, B + '.html')\<close>, where \<open>B\<close> is the base name. Since a base name
  holds no separator, the join is \<open>S\<close>, one separator unless \<open>S\<close> is empty or ends
  with one, then \<open>B\<close> and the suffix.
\<close>

theorem path_construction:
  assumes "1 < length argv"
    and "environ ''MESON_SOURCE_ROOT'' = Some S"
    and "environ ''MESON_BUILD_ROOT'' = Some D"
    and "B = basename (argv ! 1)"
  shows "prepare argv environ =
           Inr \<lparr>fname = B, meson_source_root = S, meson_build_root = D,
                infile = path_join S [B @ ''.md''],
                outfile = path_join D [B @ ''.html''],
                cmd = [''/usr/bin/pandoc'', ''-f'', ''markdown'', ''-s'',
                       path_join S [B @ ''.md''], ''-o'', path_join D [B @ ''.html'']]\<rparr> \<and>
         path_join S [B @ ''.md''] =
           S @ (if S = [] \<or> last S = CHR ''/'' then [] else ''/'') @ B @ ''.md'' \<and>
         path_join D [B @ ''.html''] =
           D @ (if D = [] \<or> last D = CHR ''/'' then [] else ''/'') @ B @ ''.html''"
proof -
  have "prepare argv environ =
           Inr \<lparr>fname = B, meson_source_root = S, meson_build_root = D,
                infile = path_join S [B @ ''.md''],
                outfile = path_join D [B @ ''.html''],
                cmd = [''/usr/bin/pandoc'', ''-f'', ''markdown'', ''-s'',
                       path_join S [B @ ''.md''], ''-o'', path_join D [B @ ''.html'']]\<rparr>"
    unfolding \<open>B = basename (argv ! 1)\<close> using assms(1-3) by (rule prepare_ok)
  moreover have "path_join S [B @ ''.md''] =
           S @ (if S = [] \<or> last S = CHR ''/'' then [] else ''/'') @ B @ ''.md''"
    unfolding \<open>B = basename (argv ! 1)\<close> by (rule path_join_basename_md)
  moreover have "path_join D [B @ ''.html''] =
           D @ (if D = [] \<or> last D = CHR ''/'' then [] else ''/'') @ B @ ''.html''"
    unfolding \<open>B = basename (argv ! 1)\<close> by (rule path_join_basename_html)
  ultimately show ?thesis by (intro conjI)
qed

theorem path_construction_witness:
  "prepare [''pandoc-html.py'', ''README'']
     [''MESON_SOURCE_ROOT'' \<mapsto> ''/home/work'', ''MESON_BUILD_ROOT'' \<mapsto> ''/home/work/meson_bld'']
   = Inr \<lparr>fname = ''README'', meson_source_root = ''/home/work'',
          meson_build_root = ''/home/work/meson_bld'',
          infile = ''/home/work/README.md'',
          outfile = ''/home/work/meson_bld/README.html'',
          cmd = [''/usr/bin/pandoc'', ''-f'', ''markdown'', ''-s'', ''/home/work/README.md'',
                 ''-o'', ''/home/work/meson_bld/README.html'']\<rparr>"
  using path_construction [of "[''pandoc-html.py'', ''README'']"
      "[''MESON_SOURCE_ROOT'' \<mapsto> ''/home/work'', ''MESON_BUILD_ROOT'' \<mapsto> ''/home/work/meson_bld'']"
      "''/home/work''" "''/home/work/meson_bld''" "''README''"]
  by (simp add: basename_README)

text \<open>
  C2: the script prints if and only if the child exited with a status other than zero.
  Then it prints two lines to its standard output: \<^verbatim>\<open>FAILED ret=\<close> and the status,
  then \<^verbatim>\<open>output=\<close> and \<^verbatim>\<open>errors=\<close> with the captured bytes of the child's two
  streams, each as Python writes a \<^verbatim>\<open>bytes\<close> value. On status zero it prints nothing.
\<close>

theorem diagnostics_iff_nonzero_exit:
  "((stdout (snd (main argv environ conv w)) \<noteq> stdout w) =
      (\<exists>l ret output errors fs'. prepare argv environ = Inr l \<and>
          conv (cmd l) (files w) = (Exits ret output errors, fs') \<and> ret \<noteq> 0)) \<and>
   (prepare argv environ = Inr l \<and> conv (cmd l) (files w) = (Exits ret output errors, fs') \<longrightarrow>
      stdout (snd (main argv environ conv w)) = stdout w @
        (if ret = 0 then []
         else ''FAILED ret='' @ str_int ret @ [CHR 0x0A] @
              ''output='' @ bytes_repr output @ '' errors='' @ bytes_repr errors @ [CHR 0x0A]))"
proof (cases "prepare argv environ")
  case (Inl e)
  then show ?thesis by (simp add: main_Inl)
next
  case (Inr l')
  have a: "(stdout (snd (main argv environ conv w)) \<noteq> stdout w) =
      (\<exists>l ret output errors fs'. prepare argv environ = Inr l \<and>
          conv (cmd l) (files w) = (Exits ret output errors, fs') \<and> ret \<noteq> 0)"
    unfolding main_Inr [OF Inr] launch_prints_iff Inr by simp
  have b: "prepare argv environ = Inr l \<and> conv (cmd l) (files w) = (Exits ret output errors, fs') \<longrightarrow>
      stdout (snd (main argv environ conv w)) = stdout w @
        (if ret = 0 then []
         else ''FAILED ret='' @ str_int ret @ [CHR 0x0A] @
              ''output='' @ bytes_repr output @ '' errors='' @ bytes_repr errors @ [CHR 0x0A])"
  proof
    assume h: "prepare argv environ = Inr l \<and> conv (cmd l) (files w) = (Exits ret output errors, fs')"
    then have "main argv environ conv w = launch conv l w" by (simp add: main_Inr)
    with h show "stdout (snd (main argv environ conv w)) = stdout w @
        (if ret = 0 then []
         else ''FAILED ret='' @ str_int ret @ [CHR 0x0A] @
              ''output='' @ bytes_repr output @ '' errors='' @ bytes_repr errors @ [CHR 0x0A])"
      by (simp only: launch_prints)
  qed
  from a b show ?thesis by (rule conjI)
qed

theorem diagnostics_iff_nonzero_exit_witness:
  "prepare ex_argv ex_environ = Inr ex_locals \<and>
   failing_stub (cmd ex_locals) (files ex_world) = (Exits 2 [] ''boom'', Map.empty) \<and>
   stdout (snd (main ex_argv ex_environ failing_stub ex_world)) =
     ''FAILED ret=2'' @ [CHR 0x0A] @
     ''output=b'' @ [CHR 0x27, CHR 0x27] @ '' errors=b'' @ [CHR 0x27] @ ''boom'' @ [CHR 0x27] @
     [CHR 0x0A]"
  using diagnostics_iff_nonzero_exit [of ex_argv ex_environ failing_stub ex_world ex_locals 2
      "[]" "''boom''" Map.empty]
  by (simp add: prepare_example str_int_2 bytes_repr_empty bytes_repr_boom)

text \<open>
  C3: when \<^verbatim>\<open>MESON_SOURCE_ROOT\<close> or \<^verbatim>\<open>MESON_BUILD_ROOT\<close> is unset, the script
  ends with an uncaught lookup error (the \<^verbatim>\<open>KeyError\<close> of the first missing variable, or
  the \<^verbatim>\<open>IndexError\<close> of a missing argument before that), and the world is unchanged: no
  command was handed to \<^verbatim>\<open>Popen\<close> and no file was created or modified.
\<close>

theorem missing_environment_variable:
  assumes "environ ''MESON_SOURCE_ROOT'' = None \<or> environ ''MESON_BUILD_ROOT'' = None"
  shows "\<exists>e. main argv environ conv w = (Raised e, w) \<and> is_lookup_error e \<and>
           e = (if length argv \<le> 1 then IndexError
                else if environ ''MESON_SOURCE_ROOT'' = None then KeyError ''MESON_SOURCE_ROOT''
                else KeyError ''MESON_BUILD_ROOT'')"
  using main_Inl [OF prepare_missing_variable [OF assms]] by simp

theorem missing_environment_variable_witness:
  "main ex_argv [''MESON_SOURCE_ROOT'' \<mapsto> ''/home/work''] failing_stub ex_world =
     (Raised (KeyError ''MESON_BUILD_ROOT''), ex_world)"
  using missing_environment_variable [of "[''MESON_SOURCE_ROOT'' \<mapsto> ''/home/work'']"
      ex_argv failing_stub ex_world]
  by simp

text \<open>
  C4: when the child exits with a status other than zero, the script still runs to its
  last line: the process ends with the runtime's status for normal completion, 0, which
  is not the child's status.
\<close>

theorem child_failure_not_propagated:
  assumes "prepare argv environ = Inr l"
    and "conv (cmd l) (files w) = (Exits ret output errors, fs')"
    and "ret \<noteq> 0"
  shows "fst (main argv environ conv w) = Completed \<and>
         exit_status (fst (main argv environ conv w)) = Some 0 \<and>
         exit_status (fst (main argv environ conv w)) \<noteq> Some ret"
  using assms by (simp add: main_Inr launch_outcome)

theorem child_failure_not_propagated_witness:
  "fst (main ex_argv ex_environ failing_stub ex_world) = Completed \<and>
   exit_status (fst (main ex_argv ex_environ failing_stub ex_world)) = Some 0"
  using child_failure_not_propagated [of ex_argv ex_environ ex_locals failing_stub ex_world 2
      "[]" "''boom''" Map.empty]
  by (simp add: prepare_example)

text \<open>
  C5: for every input with a first argument and both variables set, a run hands
  \<^verbatim>\<open>Popen\<close> exactly one command, and that command is the fixed absolute path
  \<^verbatim>\<open>/usr/bin/pandoc\<close> followed by \<^verbatim>\<open>-f markdown -s <input path> -o <output path>\<close>,
  the two paths being the joins of the roots with the base name and the fixed suffixes.
  For every input whatsoever a run hands over at most one command, of that form, and
  none when the argument or a variable is missing.
\<close>

theorem command_is_fixed:
  "(1 < length argv \<and> environ ''MESON_SOURCE_ROOT'' = Some S \<and>
    environ ''MESON_BUILD_ROOT'' = Some D \<longrightarrow>
      popen_calls (snd (main argv environ conv w)) = popen_calls w @
        [[''/usr/bin/pandoc'', ''-f'', ''markdown'', ''-s'',
          path_join S [basename (argv ! 1) @ ''.md''], ''-o'',
          path_join D [basename (argv ! 1) @ ''.html'']]]) \<and>
   popen_calls (snd (main argv environ conv w)) = popen_calls w @
     (case prepare argv environ of
        Inl e \<Rightarrow> []
      | Inr l \<Rightarrow> [[''/usr/bin/pandoc'', ''-f'', ''markdown'', ''-s'', infile l, ''-o'', outfile l]])"
proof (rule conjI)
  show "1 < length argv \<and> environ ''MESON_SOURCE_ROOT'' = Some S \<and>
    environ ''MESON_BUILD_ROOT'' = Some D \<longrightarrow>
      popen_calls (snd (main argv environ conv w)) = popen_calls w @
        [[''/usr/bin/pandoc'', ''-f'', ''markdown'', ''-s'',
          path_join S [basename (argv ! 1) @ ''.md''], ''-o'',
          path_join D [basename (argv ! 1) @ ''.html'']]]"
  proof
    assume h: "1 < length argv \<and> environ ''MESON_SOURCE_ROOT'' = Some S \<and>
      environ ''MESON_BUILD_ROOT'' = Some D"
    then have "1 < length argv" and "environ ''MESON_SOURCE_ROOT'' = Some S"
      and "environ ''MESON_BUILD_ROOT'' = Some D" by simp_all
    note p = prepare_ok [OF this]
    show "popen_calls (snd (main argv environ conv w)) = popen_calls w @
        [[''/usr/bin/pandoc'', ''-f'', ''markdown'', ''-s'',
          path_join S [basename (argv ! 1) @ ''.md''], ''-o'',
          path_join D [basename (argv ! 1) @ ''.html'']]]"
      unfolding main_Inr [OF p] launch_popen_calls by simp
  qed
next
  show "popen_calls (snd (main argv environ conv w)) = popen_calls w @
     (case prepare argv environ of
        Inl e \<Rightarrow> []
      | Inr l \<Rightarrow> [[''/usr/bin/pandoc'', ''-f'', ''markdown'', ''-s'', infile l, ''-o'', outfile l]])"
  proof (cases "prepare argv environ")
    case (Inl e)
    then show ?thesis by (simp add: main_Inl)
  next
    case (Inr l)
    then show ?thesis by (simp add: main_Inr launch_popen_calls prepare_InrD(7))
  qed
qed

theorem command_is_fixed_witness:
  "popen_calls (snd (main ex_argv ex_environ failing_stub ex_world)) =
     [[''/usr/bin/pandoc'', ''-f'', ''markdown'', ''-s'', ''/home/work/README.md'', ''-o'',
       ''/home/work/meson_bld/README.html'']]"
proof -
  have h: "1 < length ex_argv \<and> ex_environ ''MESON_SOURCE_ROOT'' = Some ''/home/work'' \<and>
      ex_environ ''MESON_BUILD_ROOT'' = Some ''/home/work/meson_bld''"
    by simp
  have i: "path_join ''/home/work'' [basename (ex_argv ! 1) @ ''.md''] = ''/home/work/README.md''"
    by (simp add: basename_README path_join_def startswith_def endswith_def sep_def)
  have out: "path_join ''/home/work/meson_bld'' [basename (ex_argv ! 1) @ ''.html''] =
      ''/home/work/meson_bld/README.html''"
    by (simp add: basename_README path_join_def startswith_def endswith_def sep_def)
  from command_is_fixed [of ex_argv ex_environ "''/home/work''" "''/home/work/meson_bld''"
      failing_stub ex_world, THEN conjunct1, THEN mp, OF h]
  show ?thesis unfolding i out by simp
qed

text \<open>
  C6: the base name is the final path component of the first argument: the argument is
  some directory part, empty or ending in a separator, followed by the base name, which
  holds no separator. Nothing else is removed or added: the two paths are built from that
  base name and the fixed suffixes. For \<^verbatim>\<open>dir/README\<close> the base name is \<^verbatim>\<open>README\<close>.
\<close>

theorem base_name_is_final_component:
  assumes "prepare argv environ = Inr l"
  shows "(\<exists>d. argv ! 1 = d @ fname l \<and> (d = [] \<or> last d = CHR ''/'')) \<and>
         CHR ''/'' \<notin> set (fname l) \<and>
         infile l = path_join (meson_source_root l) [fname l @ ''.md''] \<and>
         outfile l = path_join (meson_build_root l) [fname l @ ''.html'']"
  using prepare_InrD(4-6) [OF assms] basename_split [of "argv ! 1"] basename_no_sep [of "argv ! 1"]
  by simp

theorem base_name_is_final_component_witness:
  "prepare [''pandoc-html.py'', ''dir/README''] ex_environ = Inr ex_locals \<and>
   fname ex_locals = ''README'' \<and>
   CHR ''/'' \<notin> set (fname ex_locals) \<and>
   infile ex_locals = path_join ''/home/work'' [''README.md''] \<and>
   outfile ex_locals = path_join ''/home/work/meson_bld'' [''README.html'']"
  using base_name_is_final_component [of "[''pandoc-html.py'', ''dir/README'']" ex_environ ex_locals]
  by (simp add: prepare_dir_example)

text \<open>
  C7: with an empty first argument the script validates nothing: it hands \<^verbatim>\<open>Popen\<close>
  the command with the paths \<^verbatim>\<open><source root>/.md\<close> and \<^verbatim>\<open><build root>/.html\<close> (the
  separator is left out when the root is empty or already ends with one), and how the run
  ends is decided by the converter alone.
\<close>

theorem empty_base_name_still_spawns:
  assumes "1 < length argv" and "argv ! 1 = []"
    and "environ ''MESON_SOURCE_ROOT'' = Some S"
    and "environ ''MESON_BUILD_ROOT'' = Some D"
  shows "popen_calls (snd (main argv environ conv w)) = popen_calls w @
           [[''/usr/bin/pandoc'', ''-f'', ''markdown'', ''-s'',
             S @ (if S = [] \<or> last S = CHR ''/'' then [] else ''/'') @ ''.md'', ''-o'',
             D @ (if D = [] \<or> last D = CHR ''/'' then [] else ''/'') @ ''.html'']] \<and>
         fst (main argv environ conv w) =
           (case fst (conv [''/usr/bin/pandoc'', ''-f'', ''markdown'', ''-s'',
                 S @ (if S = [] \<or> last S = CHR ''/'' then [] else ''/'') @ ''.md'', ''-o'',
                 D @ (if D = [] \<or> last D = CHR ''/'' then [] else ''/'') @ ''.html'']
               (files w)) of
              SpawnFails \<Rightarrow> Raised OSError
            | NeverExits \<Rightarrow> Blocked
            | Exits ret output errors \<Rightarrow> Completed)"
proof -
  let ?i = "S @ (if S = [] \<or> last S = CHR ''/'' then [] else ''/'') @ ''.md''"
  let ?o = "D @ (if D = [] \<or> last D = CHR ''/'' then [] else ''/'') @ ''.html''"
  let ?c = "[''/usr/bin/pandoc'', ''-f'', ''markdown'', ''-s'', ?i, ''-o'', ?o]"
  have i: "path_join S [basename (argv ! 1) @ ''.md''] = ?i"
    using path_join_basename_md [of S "argv ! 1"] assms(2) by (simp add: basename_empty)
  have o: "path_join D [basename (argv ! 1) @ ''.html''] = ?o"
    using path_join_basename_html [of D "argv ! 1"] assms(2) by (simp add: basename_empty)
  have p: "prepare argv environ =
      Inr \<lparr>fname = [], meson_source_root = S, meson_build_root = D,
           infile = ?i, outfile = ?o, cmd = ?c\<rparr>"
    using prepare_ok [OF assms(1,3,4)] unfolding i o using assms(2) by (simp add: basename_empty)
  show ?thesis
    unfolding main_Inr [OF p] launch_popen_calls launch_outcome by simp
qed

theorem empty_base_name_still_spawns_witness:
  "popen_calls (snd (main [''pandoc-html.py'', []] ex_environ failing_stub ex_world)) =
     [[''/usr/bin/pandoc'', ''-f'', ''markdown'', ''-s'', ''/home/work/.md'', ''-o'',
       ''/home/work/meson_bld/.html'']] \<and>
   fst (main [''pandoc-html.py'', []] ex_environ failing_stub ex_world) = Completed"
  using empty_base_name_still_spawns [of "[''pandoc-html.py'', []]" ex_environ
      "''/home/work''" "''/home/work/meson_bld''" failing_stub ex_world]
  by simp

text \<open>
  C8: running the script twice in succession, the second run in the world the first one
  left, with the same argument and environment. The converter is deterministic in that,
  for the command of the run, the way the child ends (status and captured bytes) depends
  only on the content of the input file, what it leaves at the output path is either
  decided by the content of the input file or is what was there before, and it does not
  change the input file. Then the second run ends as the first, the output file holds the
  same content after the second run as after the first, and both runs print the same
  text. The input and the output path are never the same path.
\<close>

theorem rerun_idempotent:
  assumes "prepare argv environ = Inr l"
    and "\<And>f g. f (infile l) = g (infile l) \<Longrightarrow> fst (conv (cmd l) f) = fst (conv (cmd l) g)"
    and "\<And>f g. f (infile l) = g (infile l) \<Longrightarrow>
        snd (conv (cmd l) f) (outfile l) = snd (conv (cmd l) g) (outfile l) \<or>
        snd (conv (cmd l) f) (outfile l) = f (outfile l) \<and>
        snd (conv (cmd l) g) (outfile l) = g (outfile l)"
    and "\<And>f. snd (conv (cmd l) f) (infile l) = f (infile l)"
  shows "fst (main argv environ conv (snd (main argv environ conv w))) =
           fst (main argv environ conv w) \<and>
         files (snd (main argv environ conv (snd (main argv environ conv w)))) (outfile l) =
           files (snd (main argv environ conv w)) (outfile l) \<and>
         (\<exists>p. stdout (snd (main argv environ conv w)) = stdout w @ p \<and>
              stdout (snd (main argv environ conv (snd (main argv environ conv w)))) =
                stdout (snd (main argv environ conv w)) @ p) \<and>
         infile l \<noteq> outfile l"
  unfolding main_Inr [OF assms(1)]
  using launch_twice [of "infile l" conv l "outfile l" w, OF assms(2,3,4)]
    infile_neq_outfile [OF assms(1)]
  by simp

theorem rerun_idempotent_witness:
  "(fst (main ex_argv ex_environ html_stub (snd (main ex_argv ex_environ html_stub ex_world_with_input))) =
     fst (main ex_argv ex_environ html_stub ex_world_with_input) \<and>
   files (snd (main ex_argv ex_environ html_stub
       (snd (main ex_argv ex_environ html_stub ex_world_with_input)))) (outfile ex_locals) =
     files (snd (main ex_argv ex_environ html_stub ex_world_with_input)) (outfile ex_locals) \<and>
   (\<exists>p. stdout (snd (main ex_argv ex_environ html_stub ex_world_with_input)) =
          stdout ex_world_with_input @ p \<and>
        stdout (snd (main ex_argv ex_environ html_stub
          (snd (main ex_argv ex_environ html_stub ex_world_with_input)))) =
          stdout (snd (main ex_argv ex_environ html_stub ex_world_with_input)) @ p) \<and>
   infile ex_locals \<noteq> outfile ex_locals) \<and>
  files (snd (main ex_argv ex_environ html_stub ex_world_with_input)) (outfile ex_locals) =
    Some ''<html># title''"
proof -
  have same: "\<And>f g. f (infile ex_locals) = g (infile ex_locals) \<Longrightarrow>
        fst (html_stub (cmd ex_locals) f) = fst (html_stub (cmd ex_locals) g)"
    by (simp split: option.splits)
  have writes: "\<And>f g. f (infile ex_locals) = g (infile ex_locals) \<Longrightarrow>
        snd (html_stub (cmd ex_locals) f) (outfile ex_locals) =
        snd (html_stub (cmd ex_locals) g) (outfile ex_locals) \<or>
        snd (html_stub (cmd ex_locals) f) (outfile ex_locals) = f (outfile ex_locals) \<and>
        snd (html_stub (cmd ex_locals) g) (outfile ex_locals) = g (outfile ex_locals)"
    by (simp split: option.splits)
  have keeps: "\<And>f. snd (html_stub (cmd ex_locals) f) (infile ex_locals) = f (infile ex_locals)"
    by (simp split: option.splits)
  from rerun_idempotent [of ex_argv ex_environ ex_locals html_stub ex_world_with_input,
      OF prepare_example same writes keeps] html_stub_writes
  show ?thesis by (rule conjI)
qed

text \<open>
  C9: invoked with no positional argument (\<^verbatim>\<open>sys.argv\<close> has length 1), the script ends
  with an uncaught \<^verbatim>\<open>IndexError\<close> raised by \<^verbatim>\<open>sys.argv[1]\<close>. This happens whatever
  the environment holds, so also when a variable is missing (the lookup of the
  environment is not reached), and the world is unchanged: no command is handed to
  \<^verbatim>\<open>Popen\<close>, nothing is printed, no file changes.
\<close>

theorem no_argument_raises_IndexError:
  "length argv = 1 \<Longrightarrow> main argv environ conv w = (Raised IndexError, w)"
  by (simp add: main_def prepare_def argv_index_def)

theorem no_argument_raises_IndexError_witness:
  "length [''pandoc-html.py''] = 1 \<and>
   main [''pandoc-html.py''] Map.empty (\<lambda>c f. (Exits 0 [] [], f))
     \<lparr>files = Map.empty, stdout = [], popen_calls = []\<rparr>
   = (Raised IndexError, \<lparr>files = Map.empty, stdout = [], popen_calls = []\<rparr>)"
  using no_argument_raises_IndexError [of "[''pandoc-html.py'']" Map.empty
      "\<lambda>c f. (Exits 0 [] [], f)" "\<lparr>files = Map.empty, stdout = [], popen_calls = []\<rparr>"]
  by simp

text \<open>
  C10: a run depends on the command line only through the first positional argument and
  on the environment only through the two variables: two invocations that differ in the
  other arguments (or in other variables) bind the same locals and give the same outcome
  and the same world, so the same paths, command and printed output. Beyond these, the
  outcome and the printed text depend on the converter and the world only through the way
  the child ends: when that is the same, so are they.
\<close>

theorem extra_arguments_ignored:
  "prepare (p # a # xs) environ =
     prepare (q # a # ys) (environ |` {''MESON_SOURCE_ROOT'', ''MESON_BUILD_ROOT''}) \<and>
   main (p # a # xs) environ conv w =
     main (q # a # ys) (environ |` {''MESON_SOURCE_ROOT'', ''MESON_BUILD_ROOT''}) conv w \<and>
   (prepare (p # a # xs) environ = Inr l \<and>
    fst (conv (cmd l) (files w)) = fst (conv' (cmd l) (files w')) \<longrightarrow>
      fst (main (p # a # xs) environ conv w) = fst (main (q # a # ys) environ conv' w') \<and>
      (\<exists>t. stdout (snd (main (p # a # xs) environ conv w)) = stdout w @ t \<and>
           stdout (snd (main (q # a # ys) environ conv' w')) = stdout w' @ t))"
proof -
  have same: "prepare (p # a # xs) environ' = prepare (q # a # ys) environ'" for environ'
    unfolding prepare_def argv_index_second ..
  have a: "prepare (p # a # xs) environ =
     prepare (q # a # ys) (environ |` {''MESON_SOURCE_ROOT'', ''MESON_BUILD_ROOT''})"
    unfolding prepare_def argv_index_second environ_getitem_restrict ..
  then have b: "main (p # a # xs) environ conv w =
     main (q # a # ys) (environ |` {''MESON_SOURCE_ROOT'', ''MESON_BUILD_ROOT''}) conv w"
    by (simp add: main_def)
  have c: "prepare (p # a # xs) environ = Inr l \<and>
    fst (conv (cmd l) (files w)) = fst (conv' (cmd l) (files w')) \<longrightarrow>
      fst (main (p # a # xs) environ conv w) = fst (main (q # a # ys) environ conv' w') \<and>
      (\<exists>t. stdout (snd (main (p # a # xs) environ conv w)) = stdout w @ t \<and>
           stdout (snd (main (q # a # ys) environ conv' w')) = stdout w' @ t)"
  proof
    assume h: "prepare (p # a # xs) environ = Inr l \<and>
      fst (conv (cmd l) (files w)) = fst (conv' (cmd l) (files w'))"
    then have p1: "prepare (p # a # xs) environ = Inr l" ..
    then have p2: "prepare (q # a # ys) environ = Inr l" unfolding same [of environ] .
    from h have "fst (conv (cmd l) (files w)) = fst (conv' (cmd l) (files w'))" ..
    then show "fst (main (p # a # xs) environ conv w) = fst (main (q # a # ys) environ conv' w') \<and>
      (\<exists>t. stdout (snd (main (p # a # xs) environ conv w)) = stdout w @ t \<and>
           stdout (snd (main (q # a # ys) environ conv' w')) = stdout w' @ t)"
      unfolding main_Inr [OF p1] main_Inr [OF p2] by (rule launch_same_child)
  qed
  from a b c show ?thesis by (intro conjI)
qed

theorem extra_arguments_ignored_witness:
  "main [''pandoc-html.py'', ''README'', ''--verbose''] ex_environ failing_stub ex_world =
     main [''pandoc-html.py'', ''README'']
       (ex_environ |` {''MESON_SOURCE_ROOT'', ''MESON_BUILD_ROOT''}) failing_stub ex_world \<and>
   fst (main [''pandoc-html.py'', ''README'', ''--verbose''] ex_environ failing_stub ex_world) =
     fst (main [''pandoc-html.py'', ''README''] ex_environ failing_stub ex_world_printed) \<and>
   (\<exists>t. stdout (snd (main [''pandoc-html.py'', ''README'', ''--verbose''] ex_environ
             failing_stub ex_world)) = stdout ex_world @ t \<and>
        stdout (snd (main [''pandoc-html.py'', ''README''] ex_environ
             failing_stub ex_world_printed)) = stdout ex_world_printed @ t)"
proof -
  note T = extra_arguments_ignored [of "''pandoc-html.py''" "''README''" "[''--verbose'']"
      ex_environ "''pandoc-html.py''" "[]" failing_stub ex_world ex_locals failing_stub
      ex_world_printed]
  have h: "prepare [''pandoc-html.py'', ''README'', ''--verbose''] ex_environ = Inr ex_locals \<and>
      fst (failing_stub (cmd ex_locals) (files ex_world)) =
      fst (failing_stub (cmd ex_locals) (files ex_world_printed))"
    by (simp add: prepare_verbose_example)
  from T [THEN conjunct2, THEN conjunct1] T [THEN conjunct2, THEN conjunct2, THEN mp, OF h]
  show ?thesis by (rule conjI)
qed

end
